theory Spec2Isabelle
  imports Main "HOL-Library.Sublist" "HOL-Library.AList"
begin

section \<open>Values, exceptions and effects\<close>

text \<open>
  The workflow of \<^verbatim>\<open>iterations/zippy-archon\<close> (and its sibling
  \<^verbatim>\<open>iterations/v2-agentic-workflow\<close>) is a set of asynchronous node functions over
  one Python dictionary, the \<^verbatim>\<open>AgentState\<close>. Text is modelled as \<open>string\<close>, a
  \<open>char\<close> being a code point below 256 (Latin-1 text); on these code points \<open>lower\<close>
  and \<open>py_isspace\<close> below are Python's \<^verbatim>\<open>str.lower\<close> and \<^verbatim>\<open>str.isspace\<close>. Text with a
  code point from 256 on is outside the model. An exception is the pair of what the
  handlers read from it: \<^verbatim>\<open>str(e)\<close> and the text \<^verbatim>\<open>traceback.format_exc()\<close> gives while
  it is handled.
\<close>

datatype exn = Exn (exn_str: string) (exn_trace: string)

datatype 'a outcome = Returns 'a | Raises exn

text \<open>
  A value stored under a key of a returned dictionary: a \<^verbatim>\<open>str\<close>, or a list of
  message blobs.
\<close>

datatype pyval = Str string | Blobs "string list"

text \<open>
  What a node function returns: a one-key dictionary \<^verbatim>\<open>{key: value}\<close> (every node of
  the source returns exactly one key), or, for the router, a plain \<^verbatim>\<open>str\<close> label.
\<close>

datatype retval = Dict string pyval | Label string

text \<open>
  The calls that leave the process: \<^verbatim>\<open>agent.run(prompt)\<close> on a named agent,
  \<^verbatim>\<open>open(path, "w").write(content)\<close> and \<^verbatim>\<open>load_plugins(directory)\<close>. A node function
  returns the calls it made, in order, next to its outcome.
\<close>

datatype effect = AgentRun string string | WriteFile string string | LoadPlugins string

text \<open>
  The external collaborators, as the outcome each call has: an agent run returns its
  \<^verbatim>\<open>result.data\<close> (for the end-of-conversation agent its
  \<^verbatim>\<open>result.new_messages_json()\<close>) or raises; a file write and a plugin reload succeed
  (\<open>None\<close>) or raise.
\<close>

record env =
  reasoner_run :: "string \<Rightarrow> exn + string"
  router_agent_run :: "string \<Rightarrow> exn + string"
  end_conversation_agent_run :: "string \<Rightarrow> exn + string"
  diagnostic_agent_run :: "string \<Rightarrow> exn + string"
  tool_generator_agent_run :: "string \<Rightarrow> exn + string"
  write_file :: "string \<Rightarrow> string \<Rightarrow> exn option"
  load_plugins :: "string \<Rightarrow> exn option"

section \<open>The state\<close>

text \<open>
  \<^verbatim>\<open>AgentState\<close> (archon_graph.py, lines 40-47). A key that may be missing from the
  dictionary is an \<open>option\<close> field, \<open>None\<close> for a missing key. The last three keys
  are not declared in the \<^verbatim>\<open>TypedDict\<close> but are written by the tool and diagnostic nodes.
  \<^verbatim>\<open>error_retries\<close> is a Python \<^verbatim>\<open>dict\<close>: an association list, read with \<open>map_of\<close> and
  written with \<open>AList.update\<close> (which keeps a key's position and appends a new key).
\<close>

record agent_state =
  latest_user_message :: string
  messages :: "string list"
  scope :: string
  error_log :: "string list option"
  error_retries :: "(string \<times> int) list option"
  generated_code :: "string option"
  tool_creation_status :: "string option"
  diagnostic_feedback :: "string option"

type_synonym step = "agent_state \<Rightarrow> effect list \<times> retval outcome"

definition nl :: string where
  "nl = [CHR 0x0A]"

definition apostrophe :: string where
  "apostrophe = [CHR 0x27]"

text \<open>\<^verbatim>\<open>state.get("error_log", [])\<close> and the same for \<^verbatim>\<open>error_retries\<close>.\<close>

definition log_of :: "agent_state \<Rightarrow> string list" where
  "log_of state = (case error_log state of None \<Rightarrow> [] | Some l \<Rightarrow> l)"

definition retries_of :: "agent_state \<Rightarrow> (string \<times> int) list" where
  "retries_of state = (case error_retries state of None \<Rightarrow> [] | Some m \<Rightarrow> m)"

text \<open>\<^verbatim>\<open>state["error_retries"].get(node_name, 0)\<close>.\<close>

definition attempt_of :: "string \<Rightarrow> agent_state \<Rightarrow> int" where
  "attempt_of node_name state =
     (case map_of (retries_of state) node_name of None \<Rightarrow> 0 | Some a \<Rightarrow> a)"

section \<open>The error-handling decorator\<close>

text \<open>
  archon_graph.py, lines 52-83 (the same text in v2-agentic-workflow, lines 52-89).
  Lines 60-63 create the two keys when they are missing.
\<close>

definition ensure_error_fields :: "agent_state \<Rightarrow> agent_state" where
  "ensure_error_fields state =
     (let state1 = (if error_log state = None then state\<lparr>error_log := Some []\<rparr> else state)
      in if error_retries state1 = None then state1\<lparr>error_retries := Some []\<rparr> else state1)"

text \<open>Line 72: the entry appended to \<^verbatim>\<open>error_log\<close>.\<close>

definition error_message :: "string \<Rightarrow> exn \<Rightarrow> string" where
  "error_message node_name e =
     ''Error in node '' @ apostrophe @ node_name @ apostrophe @ '': '' @ exn_str e
       @ nl @ ''Traceback:'' @ nl @ exn_trace e"

text \<open>Line 79: the dictionary that asks the graph for the diagnostics node.\<close>

definition reroute :: retval where
  "reroute = Dict ''__route__'' (Str ''diagnose_errors'')"

text \<open>
  The wrapper. It calls \<open>func\<close> once (line 67). The node functions it decorates only
  read the state, so \<open>func\<close> returns its effects and its outcome; the wrapper itself
  mutates the state in place, so the state after the call is returned too, also when the
  exception is re-raised (line 81).
\<close>

definition error_handler_decorator ::
  "string \<Rightarrow> int \<Rightarrow> step \<Rightarrow> agent_state \<Rightarrow> effect list \<times> retval outcome \<times> agent_state" where
  "error_handler_decorator node_name max_retries func state =
     (let state0 = ensure_error_fields state;
          attempt = attempt_of node_name state0;
          (effs, r) = func state0
      in case r of
           Returns result \<Rightarrow>
             (effs, Returns result,
              state0\<lparr>error_retries := Some (AList.update node_name 0 (retries_of state0))\<rparr>)
         | Raises e \<Rightarrow>
             (let state1 = state0\<lparr>error_log := Some (log_of state0 @ [error_message node_name e])\<rparr>;
                  attempt1 = attempt + 1;
                  state2 = state1\<lparr>error_retries :=
                             Some (AList.update node_name attempt1 (retries_of state1))\<rparr>
              in if attempt1 \<ge> max_retries then (effs, Returns reroute, state2)
                 else (effs, Raises e, state2)))"

text \<open>
  An undecorated node function (\<^verbatim>\<open>diagnose_errors\<close>, \<^verbatim>\<open>generate_tool_code\<close>,
  \<^verbatim>\<open>finalize_new_tool\<close>) is called as it is: it only reads the state, so the state after
  the call is the state before, whether it returns or raises.
\<close>

definition plain :: "step \<Rightarrow> agent_state \<Rightarrow> effect list \<times> retval outcome \<times> agent_state" where
  "plain func state = (let (effs, r) = func state in (effs, r, state))"

text \<open>
  A call of a node function: decorated (with the decorator's arguments: the node name,
  its bound and the function it wraps) or not. \<open>call_sequence\<close> is the state a sequence
  of such calls on the same dictionary leaves behind.
\<close>

datatype node_call = Decorated string int step | Undecorated step

fun run_call :: "node_call \<Rightarrow> agent_state \<Rightarrow> effect list \<times> retval outcome \<times> agent_state" where
  "run_call (Decorated node_name max_retries func) state =
     error_handler_decorator node_name max_retries func state"
| "run_call (Undecorated func) state = plain func state"

fun call_sequence :: "node_call list \<Rightarrow> agent_state \<Rightarrow> agent_state" where
  "call_sequence [] state = state"
| "call_sequence (c # calls) state = call_sequence calls (snd (snd (run_call c state)))"

text \<open>
  No stored retry counter is negative. The decorator only ever stores 0 or a counter
  plus one, so this holds in every state that starts from \<^verbatim>\<open>start_flow\<close>.
\<close>

definition counters_nonneg :: "agent_state \<Rightarrow> bool" where
  "counters_nonneg state = list_all (\<lambda>(node_name, a). 0 \<le> a) (retries_of state)"

section \<open>Text operations\<close>

text \<open>
  \<^verbatim>\<open>str.lower()\<close> on Latin-1 text: the letters A-Z and the letters U+00C0-U+00DE
  (all of that range but the multiplication sign U+00D7) move up by 32; every other
  code point below 256 stays.
\<close>

definition upper_letters :: string where
  "upper_letters =
     ''ABCDEFGHIJKLMNOPQRSTUVWXYZ''
     @ [CHR 0xC0, CHR 0xC1, CHR 0xC2, CHR 0xC3, CHR 0xC4, CHR 0xC5, CHR 0xC6, CHR 0xC7,
        CHR 0xC8, CHR 0xC9, CHR 0xCA, CHR 0xCB, CHR 0xCC, CHR 0xCD, CHR 0xCE, CHR 0xCF,
        CHR 0xD0, CHR 0xD1, CHR 0xD2, CHR 0xD3, CHR 0xD4, CHR 0xD5, CHR 0xD6,
        CHR 0xD8, CHR 0xD9, CHR 0xDA, CHR 0xDB, CHR 0xDC, CHR 0xDD, CHR 0xDE]"

definition lower_letters :: string where
  "lower_letters =
     ''abcdefghijklmnopqrstuvwxyz''
     @ [CHR 0xE0, CHR 0xE1, CHR 0xE2, CHR 0xE3, CHR 0xE4, CHR 0xE5, CHR 0xE6, CHR 0xE7,
        CHR 0xE8, CHR 0xE9, CHR 0xEA, CHR 0xEB, CHR 0xEC, CHR 0xED, CHR 0xEE, CHR 0xEF,
        CHR 0xF0, CHR 0xF1, CHR 0xF2, CHR 0xF3, CHR 0xF4, CHR 0xF5, CHR 0xF6,
        CHR 0xF8, CHR 0xF9, CHR 0xFA, CHR 0xFB, CHR 0xFC, CHR 0xFD, CHR 0xFE]"

definition lower_char :: "char \<Rightarrow> char" where
  "lower_char c =
     (case map_of (zip upper_letters lower_letters) c of
        None \<Rightarrow> c
      | Some l \<Rightarrow> l)"

definition lower :: "string \<Rightarrow> string" where
  "lower s = map lower_char s"

text \<open>\<^verbatim>\<open>sub in s\<close> on strings: \<open>sub\<close> starts at some position of \<open>s\<close>.\<close>

fun str_contains :: "string \<Rightarrow> string \<Rightarrow> bool" where
  "str_contains sub [] = (sub = [])"
| "str_contains sub (c # cs) = (prefix sub (c # cs) \<or> str_contains sub cs)"

text \<open>
  \<^verbatim>\<open>str.isspace()\<close> on a code point below 256, which is also what \<^verbatim>\<open>str.strip()\<close>
  removes: tab, line feed, vertical tab, form feed, carriage return (9-13), the four
  separators 0x1C-0x1F, the space, the next-line control U+0085 and the no-break space
  U+00A0.
\<close>

definition py_isspace :: "char \<Rightarrow> bool" where
  "py_isspace c =
     (let n = (of_char c :: nat)
      in (9 \<le> n \<and> n \<le> 13) \<or> (28 \<le> n \<and> n \<le> 32) \<or> n = 133 \<or> n = 160)"

definition strip :: "string \<Rightarrow> string" where
  "strip s = rev (dropWhile py_isspace (rev (dropWhile py_isspace s)))"

text \<open>\<^verbatim>\<open>sep.join(xs)\<close>.\<close>

fun str_join :: "string \<Rightarrow> string list \<Rightarrow> string" where
  "str_join sep [] = []"
| "str_join sep [x] = x"
| "str_join sep (x # y # ys) = x @ sep @ str_join sep (y # ys)"

text \<open>\<^verbatim>\<open>xs[-3:]\<close>: the last three elements, or all of them when there are fewer.\<close>

definition last3 :: "'a list \<Rightarrow> 'a list" where
  "last3 xs = drop (length xs - 3) xs"

section \<open>Node functions\<close>

text \<open>
  \<^verbatim>\<open>result = await agent.run(prompt)\<close> followed by a \<^verbatim>\<open>return\<close> built from the result:
  one call leaves the process; when it raises, so does the node function.
\<close>

definition agent_call ::
  "string \<Rightarrow> (string \<Rightarrow> exn + string) \<Rightarrow> string \<Rightarrow> (string \<Rightarrow> retval) \<Rightarrow> effect list \<times> retval outcome" where
  "agent_call agent run prompt ret =
     ([AgentRun agent prompt], case run prompt of Inl e \<Rightarrow> Raises e | Inr d \<Rightarrow> Returns (ret d))"

text \<open>archon_graph.py, lines 88-98.\<close>

definition define_scope_with_reasoner_func :: "env \<Rightarrow> step" where
  "define_scope_with_reasoner_func env state =
     (let user_input = latest_user_message state
      in agent_call ''reasoner'' (reasoner_run env)
           (''Analyze user request: '' @ user_input @ nl
              @ ''Return a scope for building a Pydantic AI agent.'')
           (\<lambda>d. Dict ''scope'' (Str d)))"

definition define_scope_with_reasoner ::
  "env \<Rightarrow> agent_state \<Rightarrow> effect list \<times> retval outcome \<times> agent_state" where
  "define_scope_with_reasoner env =
     error_handler_decorator ''define_scope_with_reasoner'' 2 (define_scope_with_reasoner_func env)"

text \<open>archon_graph.py, lines 100-105.\<close>

definition coder_agent_func :: step where
  "coder_agent_func state = ([], Returns (Dict ''messages'' (Blobs [])))"

definition coder_agent :: "agent_state \<Rightarrow> effect list \<times> retval outcome \<times> agent_state" where
  "coder_agent = error_handler_decorator ''coder_agent'' 2 coder_agent_func"

text \<open>
  archon_graph.py, lines 107-120 (v2-agentic-workflow, lines 118-135): the router. The
  router agent is run on the lowered message and its answer is not used; the label
  comes from the three substring tests.
\<close>

definition route_user_message_func :: "env \<Rightarrow> step" where
  "route_user_message_func env state =
     (let user_msg = lower (latest_user_message state)
      in agent_call ''router_agent'' (router_agent_run env) user_msg
           (\<lambda>d. if str_contains ''finish'' user_msg then Label ''finish_conversation''
                else if str_contains ''create tool'' user_msg \<or> str_contains ''new plugin'' user_msg
                then Label ''create_tool''
                else Label ''coder_agent''))"

definition route_user_message ::
  "env \<Rightarrow> agent_state \<Rightarrow> effect list \<times> retval outcome \<times> agent_state" where
  "route_user_message env =
     error_handler_decorator ''route_user_message'' 1 (route_user_message_func env)"

text \<open>archon_graph.py, lines 122-131.\<close>

definition finish_conversation_func :: "env \<Rightarrow> step" where
  "finish_conversation_func env state =
     (let user_msg = latest_user_message state
      in agent_call ''end_conversation_agent'' (end_conversation_agent_run env)
           (''User last message: '' @ user_msg @ nl @ ''Please say goodbye.'')
           (\<lambda>d. Dict ''messages'' (Blobs [d])))"

definition finish_conversation ::
  "env \<Rightarrow> agent_state \<Rightarrow> effect list \<times> retval outcome \<times> agent_state" where
  "finish_conversation env =
     error_handler_decorator ''finish_conversation'' 1 (finish_conversation_func env)"

text \<open>tool_generator_agent.py, lines 27-35. Not decorated.\<close>

definition generate_tool_code :: "env \<Rightarrow> step" where
  "generate_tool_code env state =
     (let user_req = latest_user_message state
      in agent_call ''tool_generator_agent'' (tool_generator_agent_run env)
           (nl @ ''User request: '' @ user_req @ nl @ nl
              @ ''Generate a Python plugin that implements a class with ''
              @ apostrophe @ ''name'' @ apostrophe @ '', ''
              @ apostrophe @ ''description'' @ apostrophe @ '', and ''
              @ apostrophe @ ''run(...)'' @ apostrophe @ ''.'' @ nl)
           (\<lambda>d. Dict ''generated_code'' (Str d)))"

text \<open>
  tool_generator_agent.py, lines 37-50 (the same statements in
  agentic-workflow/tool_generator_agent.py, lines 76-103). Not decorated. The path is
  \<^verbatim>\<open>os.path.join("plugins", file_name)\<close> with the POSIX separator. A \<open>WriteFile\<close>
  or \<open>LoadPlugins\<close> effect is the call being made; when it raises, the statements
  after it do not run.
\<close>

definition finalize_new_tool :: "env \<Rightarrow> step" where
  "finalize_new_tool env state =
     (let code = (case generated_code state of None \<Rightarrow> [] | Some c \<Rightarrow> c)
      in if strip code = [] then
           ([], Returns (Dict ''tool_creation_status'' (Str ''No code generated.'')))
         else
           (let file_name = ''tool_generated.py'';
                file_path = ''plugins'' @ ''/'' @ file_name
            in case write_file env file_path code of
                 Some e \<Rightarrow> ([WriteFile file_path code], Raises e)
               | None \<Rightarrow>
                   (case load_plugins env ''plugins'' of
                      Some e \<Rightarrow> ([WriteFile file_path code, LoadPlugins ''plugins''], Raises e)
                    | None \<Rightarrow>
                        ([WriteFile file_path code, LoadPlugins ''plugins''],
                         Returns (Dict ''tool_creation_status''
                                    (Str (''Plugin created: '' @ file_name)))))))"

text \<open>
  diagnostic_agent.py, lines 26-46. Not decorated. The \<^verbatim>\<open>try\<close> around the agent run
  turns its exception into the feedback text.
\<close>

definition diagnostic_prompt :: "string list \<Rightarrow> string" where
  "diagnostic_prompt entries =
     nl @ ''System encountered repeated errors:'' @ nl @ nl
       @ str_join (nl @ nl) entries @ nl @ nl
       @ ''Please analyze these and propose possible reasons/fixes.'' @ nl @ ''    ''"

definition fail_msg :: "exn \<Rightarrow> string" where
  "fail_msg e =
     ''Diagnostic Agent failed: '' @ exn_str e @ nl @ ''Traceback:'' @ nl @ exn_trace e"

definition diagnose_errors :: "env \<Rightarrow> step" where
  "diagnose_errors env state =
     (let error_log = log_of state
      in if error_log = [] then
           ([], Returns (Dict ''diagnostic_feedback'' (Str ''No errors found to diagnose.'')))
         else
           (let prompt = diagnostic_prompt (last3 error_log)
            in ([AgentRun ''diagnostic_agent'' prompt],
                case diagnostic_agent_run env prompt of
                  Inr d \<Rightarrow> Returns (Dict ''diagnostic_feedback'' (Str d))
                | Inl e \<Rightarrow> Returns (Dict ''diagnostic_feedback'' (Str (fail_msg e))))))"

text \<open>v2-agentic-workflow/diagnostic_agent.py, lines 30-57: other texts, same steps.\<close>

definition diagnostic_prompt_v2 :: "string list \<Rightarrow> string" where
  "diagnostic_prompt_v2 entries =
     nl @ ''The system has encountered repeated errors:'' @ nl @ nl
       @ str_join (nl @ nl) entries @ nl @ nl
       @ ''Please analyze these errors and suggest possible reasons, fixes, '' @ nl
       @ ''or additional clarifications that might help resolve them.'' @ nl @ ''    ''"

definition diagnose_errors_v2 :: "env \<Rightarrow> step" where
  "diagnose_errors_v2 env state =
     (let error_log = log_of state
      in if error_log = [] then
           ([], Returns (Dict ''diagnostic_feedback'' (Str ''No errors to diagnose.'')))
         else
           (let prompt = diagnostic_prompt_v2 (last3 error_log)
            in ([AgentRun ''diagnostic_agent'' prompt],
                case diagnostic_agent_run env prompt of
                  Inr d \<Rightarrow> Returns (Dict ''diagnostic_feedback'' (Str d))
                | Inl e \<Rightarrow> Returns (Dict ''diagnostic_feedback'' (Str (fail_msg e))))))"

section \<open>The orchestrator and the HTTP handlers\<close>

text \<open>
  orchestrator.py. \<^verbatim>\<open>self.graph\<close> is the compiled graph of the graph library, with its
  checkpointer; its \<^verbatim>\<open>run\<close> method and \<^verbatim>\<open>state\<close> attribute are the library's. The
  library is a parameter: \<open>'g\<close> is the graph object (what a run leaves in it
  included), \<open>graph_run\<close> its \<^verbatim>\<open>run\<close>, which returns or raises, \<open>graph_state\<close> its
  \<^verbatim>\<open>state\<close>, \<open>new_graph\<close> what \<^verbatim>\<open>Orchestrator()\<close> builds, and \<open>result_str\<close> is
  \<^verbatim>\<open>str(result)\<close>. \<^verbatim>\<open>run\<close> is called with a state dictionary by \<^verbatim>\<open>start_flow\<close> and
  with the bare message by \<^verbatim>\<open>resume_flow\<close>.
\<close>

datatype graph_input = InitialState agent_state | UserMessage string

record ('g, 'r) framework =
  graph_run :: "'g \<Rightarrow> graph_input \<Rightarrow> 'r outcome \<times> 'g"
  graph_state :: "'g \<Rightarrow> agent_state"
  new_graph :: "'g"
  result_str :: "'r \<Rightarrow> string"

text \<open>orchestrator.py, lines 83-89: the dictionary \<^verbatim>\<open>start_flow\<close> builds.\<close>

definition initial_state :: "string \<Rightarrow> agent_state" where
  "initial_state user_message =
     \<lparr>latest_user_message = user_message, messages = [], scope = [],
      error_log = Some [], error_retries = Some [],
      generated_code = None, tool_creation_status = None, diagnostic_feedback = None\<rparr>"

text \<open>orchestrator.py, lines 79-90.\<close>

definition start_flow :: "('g, 'r) framework \<Rightarrow> 'g \<Rightarrow> string \<Rightarrow> 'r outcome \<times> 'g" where
  "start_flow fw graph user_message = graph_run fw graph (InitialState (initial_state user_message))"

text \<open>orchestrator.py, lines 92-96.\<close>

definition resume_flow :: "('g, 'r) framework \<Rightarrow> 'g \<Rightarrow> string \<Rightarrow> 'r outcome \<times> 'g" where
  "resume_flow fw graph user_message = graph_run fw graph (UserMessage user_message)"

text \<open>
  archon_server.py, lines 33-50: the \<^verbatim>\<open>/resume_flow\<close> handler. The module-level
  dictionary \<^verbatim>\<open>orchestrators\<close> maps a session id to its orchestrator; the request's two
  keys may be missing. The handler returns the response dictionary, or raises what the
  run raised; the dictionary of orchestrators after the call is returned with it.
\<close>

record response =
  resp_result :: string
  resp_state :: agent_state
  resp_session_id :: string

definition server_resume_flow ::
  "('g, 'r) framework \<Rightarrow> (string \<times> 'g) list \<Rightarrow> string option \<Rightarrow> string option
     \<Rightarrow> response outcome \<times> (string \<times> 'g) list" where
  "server_resume_flow fw orchestrators user_message_field session_id_field =
     (let user_message = (case user_message_field of None \<Rightarrow> [] | Some m \<Rightarrow> m);
          session_id = (case session_id_field of None \<Rightarrow> ''default'' | Some i \<Rightarrow> i);
          orchestrators1 =
            (if map_of orchestrators session_id = None
             then AList.update session_id (new_graph fw) orchestrators
             else orchestrators);
          graph = (case map_of orchestrators1 session_id of None \<Rightarrow> new_graph fw | Some g \<Rightarrow> g);
          (out, graph1) = resume_flow fw graph user_message;
          orchestrators2 = AList.update session_id graph1 orchestrators1
      in case out of
           Raises e \<Rightarrow> (Raises e, orchestrators2)
         | Returns r \<Rightarrow>
             (Returns \<lparr>resp_result = result_str fw r, resp_state = graph_state fw graph1,
                       resp_session_id = session_id\<rparr>,
              orchestrators2))"

section \<open>The graph and its traversal\<close>

text \<open>
  orchestrator.py, lines 31-72 (\<^verbatim>\<open>_build_graph\<close>): the nodes with their functions, the
  unconditional edges, and the labels of the conditional edges that leave
  \<^verbatim>\<open>get_next_user_message\<close> through the router.
\<close>

datatype node = START | END | Node string

definition nodes ::
  "env \<Rightarrow> (string \<times> (agent_state \<Rightarrow> effect list \<times> retval outcome \<times> agent_state)) list" where
  "nodes env =
     [(''define_scope_with_reasoner'', define_scope_with_reasoner env),
      (''coder_agent'', coder_agent),
      (''finish_conversation'', finish_conversation env),
      (''diagnose_errors'', plain (diagnose_errors env)),
      (''generate_tool_code'', plain (generate_tool_code env)),
      (''finalize_new_tool'', plain (finalize_new_tool env))]"

definition edges :: "(node \<times> node) list" where
  "edges =
     [(START, Node ''define_scope_with_reasoner''),
      (Node ''define_scope_with_reasoner'', Node ''coder_agent''),
      (Node ''coder_agent'', Node ''get_next_user_message''),
      (Node ''finish_conversation'', END),
      (Node ''diagnose_errors'', END),
      (Node ''generate_tool_code'', Node ''finalize_new_tool''),
      (Node ''finalize_new_tool'', END)]"

definition conditional_edges :: "(string \<times> node) list" where
  "conditional_edges =
     [(''coder_agent'', Node ''coder_agent''),
      (''finish_conversation'', Node ''finish_conversation''),
      (''create_tool'', Node ''generate_tool_code'')]"

text \<open>
  Modelled from the spec: the traversal of the compiled graph (the graph library's
  \<^verbatim>\<open>run\<close>, of which the repository holds only the calls), after sections 3 and 4.2 of
  the specification. A returned one-key dictionary is merged into the state, \<^verbatim>\<open>messages\<close>
  by concatenation (the reducer of archon_graph.py, line 42), any other key by
  replacement. The traversal ends at END with the final state and at the
  await-user-input node \<^verbatim>\<open>get_next_user_message\<close> with a suspend signal; a returned
  \<^verbatim>\<open>__route__\<close> key overrides the node's edge; otherwise the node's single edge is taken.
  A target or label that names nothing is the routing error. The specification's
  executor never raises; the decorator of the source does, and an exception that leaves
  a node function ends the traversal here with the node, the exception and the state.
  The first component of the result lists the nodes executed, in order.
\<close>

definition merge_update :: "string \<Rightarrow> pyval \<Rightarrow> agent_state \<Rightarrow> agent_state" where
  "merge_update key v state =
     (case v of
        Blobs bs \<Rightarrow> (if key = ''messages'' then state\<lparr>messages := messages state @ bs\<rparr> else state)
      | Str x \<Rightarrow>
          (if key = ''latest_user_message'' then state\<lparr>latest_user_message := x\<rparr>
           else if key = ''scope'' then state\<lparr>scope := x\<rparr>
           else if key = ''generated_code'' then state\<lparr>generated_code := Some x\<rparr>
           else if key = ''tool_creation_status'' then state\<lparr>tool_creation_status := Some x\<rparr>
           else if key = ''diagnostic_feedback'' then state\<lparr>diagnostic_feedback := Some x\<rparr>
           else state))"

datatype run_result =
    FinalState agent_state
  | SuspendSignal agent_state
  | RoutingError string agent_state
  | NodeRaised string exn agent_state
  | OutOfFuel

definition executed :: "string \<Rightarrow> string list \<times> run_result \<Rightarrow> string list \<times> run_result" where
  "executed name r = (name # fst r, snd r)"

fun traverse :: "env \<Rightarrow> nat \<Rightarrow> node \<Rightarrow> agent_state \<Rightarrow> string list \<times> run_result" where
  "traverse env 0 current state = ([], OutOfFuel)"
| "traverse env (Suc fuel) END state = ([], FinalState state)"
| "traverse env (Suc fuel) START state =
     (case map_of edges START of
        None \<Rightarrow> ([], RoutingError ''START'' state)
      | Some successor \<Rightarrow> traverse env fuel successor state)"
| "traverse env (Suc fuel) (Node name) state =
     (if name = ''get_next_user_message'' then ([], SuspendSignal state)
      else case map_of (nodes env) name of
        None \<Rightarrow> ([], RoutingError name state)
      | Some func \<Rightarrow>
          (case func state of
             (effs, Raises e, state1) \<Rightarrow> ([name], NodeRaised name e state1)
           | (effs, Returns (Label l), state1) \<Rightarrow> ([name], RoutingError l state1)
           | (effs, Returns (Dict key v), state1) \<Rightarrow>
               (if key = ''__route__'' then
                  (case v of
                     Str target \<Rightarrow> executed name (traverse env fuel (Node target) state1)
                   | Blobs bs \<Rightarrow> ([name], RoutingError key state1))
                else
                  (case map_of edges (Node name) of
                     None \<Rightarrow> ([name], RoutingError name state1)
                   | Some successor \<Rightarrow>
                       executed name (traverse env fuel successor (merge_update key v state1))))))"

text \<open>
  Modelled from the spec: resuming a suspended traversal (section 4.2, step 2). The new
  message becomes \<^verbatim>\<open>latest_user_message\<close> and the loop resumes at the router, whose label
  selects among the conditional edges.
\<close>

definition resume :: "env \<Rightarrow> nat \<Rightarrow> agent_state \<Rightarrow> string \<Rightarrow> string list \<times> run_result" where
  "resume env fuel state new_message =
     (case route_user_message env (state\<lparr>latest_user_message := new_message\<rparr>) of
        (effs, Raises e, state1) \<Rightarrow>
          ([''route_user_message''], NodeRaised ''route_user_message'' e state1)
      | (effs, Returns (Label l), state1) \<Rightarrow>
          (case map_of conditional_edges l of
             None \<Rightarrow> ([''route_user_message''], RoutingError l state1)
           | Some successor \<Rightarrow> executed ''route_user_message'' (traverse env fuel successor state1))
      | (effs, Returns (Dict key v), state1) \<Rightarrow>
          (if key = ''__route__'' then
             (case v of
                Str target \<Rightarrow> executed ''route_user_message'' (traverse env fuel (Node target) state1)
              | Blobs bs \<Rightarrow> ([''route_user_message''], RoutingError key state1))
           else ([''route_user_message''], RoutingError key state1)))"

section \<open>Inputs used in the examples\<close>

definition boom :: exn where
  "boom = Exn ''model unavailable'' ''Traceback (most recent call last): ...''"

definition always_fails :: step where
  "always_fails state = ([], Raises boom)"

text \<open>A step that fails while the log is empty and succeeds afterwards.\<close>

definition fails_once :: step where
  "fails_once state =
     (if log_of state = [] then ([], Raises boom) else ([], Returns (Dict ''scope'' (Str ''plan''))))"

text \<open>Collaborators that all raise, and collaborators that all answer.\<close>

definition failing_env :: env where
  "failing_env =
     \<lparr>reasoner_run = (\<lambda>p. Inl boom), router_agent_run = (\<lambda>p. Inl boom),
      end_conversation_agent_run = (\<lambda>p. Inl boom), diagnostic_agent_run = (\<lambda>p. Inl boom),
      tool_generator_agent_run = (\<lambda>p. Inl boom),
      write_file = (\<lambda>p c. None), load_plugins = (\<lambda>d. None)\<rparr>"

definition working_env :: env where
  "working_env =
     \<lparr>reasoner_run = (\<lambda>p. Inr ''ok''), router_agent_run = (\<lambda>p. Inr ''ok''),
      end_conversation_agent_run = (\<lambda>p. Inr ''ok''), diagnostic_agent_run = (\<lambda>p. Inr ''ok''),
      tool_generator_agent_run = (\<lambda>p. Inr ''ok''),
      write_file = (\<lambda>p c. None), load_plugins = (\<lambda>d. None)\<rparr>"

text \<open>
  A graph library whose \<^verbatim>\<open>run\<close> accepts whatever it is given: the graph object is the
  list of the inputs it has been run with.
\<close>

definition recording_framework :: "(graph_input list, string) framework" where
  "recording_framework =
     \<lparr>graph_run = (\<lambda>g i. (Returns ''ok'', g @ [i])), graph_state = (\<lambda>g. initial_state []),
      new_graph = [], result_str = (\<lambda>r. r)\<rparr>"

section \<open>Properties of the decorator\<close>

lemma log_of_ensure [simp]: "log_of (ensure_error_fields s) = log_of s"
  by (simp add: ensure_error_fields_def log_of_def Let_def split: option.splits)

lemma retries_of_ensure [simp]: "retries_of (ensure_error_fields s) = retries_of s"
  by (simp add: ensure_error_fields_def retries_of_def Let_def split: option.splits)

lemma attempt_of_ensure [simp]: "attempt_of n (ensure_error_fields s) = attempt_of n s"
  by (simp add: attempt_of_def)

lemma retries_of_error_log_update [simp]: "retries_of (s\<lparr>error_log := l\<rparr>) = retries_of s"
  by (simp add: retries_of_def)

lemma log_of_error_retries_update [simp]: "log_of (s\<lparr>error_retries := m\<rparr>) = log_of s"
  by (simp add: log_of_def)

lemma log_of_error_log_update [simp]: "log_of (s\<lparr>error_log := Some l\<rparr>) = l"
  by (simp add: log_of_def)

lemma decorator_success:
  assumes "func (ensure_error_fields s) = (effs, Returns r)"
  shows "error_handler_decorator name n func s =
           (effs, Returns r,
            (ensure_error_fields s)\<lparr>error_retries := Some (AList.update name 0 (retries_of s))\<rparr>)"
  using assms by (simp add: error_handler_decorator_def Let_def)

lemma decorator_failure:
  assumes "func (ensure_error_fields s) = (effs, Raises e)"
  shows "error_handler_decorator name n func s =
           (effs,
            (if attempt_of name s + 1 \<ge> n then Returns reroute else Raises e),
            (ensure_error_fields s)
              \<lparr>error_log := Some (log_of s @ [error_message name e]),
               error_retries := Some (AList.update name (attempt_of name s + 1) (retries_of s))\<rparr>)"
  using assms by (simp add: error_handler_decorator_def Let_def)

lemma attempt_of_update [simp]:
  "attempt_of name (s\<lparr>error_retries := Some (AList.update name a m)\<rparr>) = a"
  by (simp add: attempt_of_def retries_of_def update_conv')

lemma plain_state [simp]: "snd (snd (plain func s)) = s"
  by (simp add: plain_def split: prod.splits)

lemma plain_result: "fst (plain func s) = fst (func s) \<and> fst (snd (plain func s)) = snd (func s)"
  by (simp add: plain_def split: prod.splits)

lemma call_sequence_append:
  "call_sequence (xs @ ys) s = call_sequence ys (call_sequence xs s)"
  by (induction xs arbitrary: s) auto

lemma call_sequence_Suc:
  "call_sequence (replicate (Suc k) c) s
     = snd (snd (run_call c (call_sequence (replicate k c) s)))"
proof -
  have "replicate (Suc k) c = replicate k c @ [c]"
    by (simp add: replicate_append_same)
  then show ?thesis
    by (simp only: call_sequence_append) simp
qed

lemma attempt_after_failures:
  assumes "\<forall>st. \<exists>effs e. func st = (effs, Raises e)"
  shows "attempt_of name (call_sequence (replicate k (Decorated name n func)) s)
           = attempt_of name s + int k
     \<and> length (log_of (call_sequence (replicate k (Decorated name n func)) s))
           = length (log_of s) + k"
proof (induction k arbitrary: s)
  case 0
  then show ?case by simp
next
  case (Suc k)
  obtain effs e where f: "func (ensure_error_fields s) = (effs, Raises e)"
    using assms by blast
  show ?case
    using f by (simp add: decorator_failure Suc)
qed

lemma failing_call:
  assumes "\<forall>st. \<exists>effs e. func st = (effs, Raises e)"
  shows "fst (error_handler_decorator name n func t) = fst (func (ensure_error_fields t))
     \<and> fst (snd (error_handler_decorator name n func t))
         = (if n \<le> attempt_of name t + 1 then Returns reroute
            else snd (func (ensure_error_fields t)))
     \<and> (\<exists>e. snd (func (ensure_error_fields t)) = Raises e)"
proof -
  obtain effs e where f: "func (ensure_error_fields t) = (effs, Raises e)"
    using assms by blast
  then show ?thesis
    by (simp add: decorator_failure)
qed

lemma decorator_log_prefix:
  "prefix (log_of s) (log_of (snd (snd (error_handler_decorator name n func s))))"
proof (cases "func (ensure_error_fields s)")
  case (Pair effs r)
  then show ?thesis
    by (cases r) (simp_all add: decorator_success decorator_failure)
qed

lemma run_call_log_prefix: "prefix (log_of s) (log_of (snd (snd (run_call c s))))"
  by (cases c) (simp_all add: decorator_log_prefix)

lemma call_sequence_log_prefix: "prefix (log_of s) (log_of (call_sequence calls s))"
proof (induction calls arbitrary: s)
  case Nil
  then show ?case by simp
next
  case (Cons c calls)
  have "prefix (log_of s) (log_of (snd (snd (run_call c s))))"
    by (rule run_call_log_prefix)
  also have "prefix \<dots> (log_of (call_sequence (c # calls) s))"
    using Cons.IH by simp
  finally show ?case .
qed

lemma error_message_mentions:
  "sublist name (error_message name e) \<and> sublist (exn_str e) (error_message name e)"
proof
  show "sublist name (error_message name e)"
    unfolding sublist_def error_message_def by (metis append.assoc)
  show "sublist (exn_str e) (error_message name e)"
    unfolding sublist_def error_message_def by (metis append.assoc)
qed

lemma list_all_update:
  "list_all P al \<Longrightarrow> P (k, v) \<Longrightarrow> list_all P (AList.update k v al)"
  by (induction al) auto

lemma counters_nonneg_attempt: "counters_nonneg s \<Longrightarrow> 0 \<le> attempt_of name s"
proof -
  assume c: "counters_nonneg s"
  show ?thesis
  proof (cases "map_of (retries_of s) name")
    case None
    then show ?thesis by (simp add: attempt_of_def)
  next
    case (Some a)
    then have "(name, a) \<in> set (retries_of s)"
      by (rule map_of_SomeD)
    with c have "0 \<le> a"
      by (auto simp: counters_nonneg_def list_all_iff)
    with Some show ?thesis by (simp add: attempt_of_def)
  qed
qed

lemma counters_nonneg_decorator:
  assumes "counters_nonneg s"
  shows "counters_nonneg (snd (snd (error_handler_decorator name n func s)))"
proof (cases "func (ensure_error_fields s)")
  case (Pair effs r)
  have a: "0 \<le> attempt_of name s + 1"
    using counters_nonneg_attempt [OF assms, of name] by simp
  have l: "list_all (\<lambda>(node_name, a). 0 \<le> a) (retries_of s)"
    using assms by (simp add: counters_nonneg_def)
  show ?thesis
  proof (cases r)
    case (Returns x)
    with Pair l show ?thesis
      by (simp add: decorator_success counters_nonneg_def retries_of_def list_all_update)
  next
    case (Raises e)
    with Pair l a show ?thesis
      by (simp add: decorator_failure counters_nonneg_def retries_of_def list_all_update)
  qed
qed

lemma counters_nonneg_initial: "counters_nonneg (initial_state m)"
  by (simp add: counters_nonneg_def retries_of_def initial_state_def)

text \<open>
  C1, as the code has it. The bound \<open>n\<close> is at least one and the node's counter starts
  at zero (or is missing). Every invocation of the step fails, and the wrapper is called
  again on the same dictionary after each exception it re-raises: the state before call
  \<open>k + 1\<close> is the state call \<open>k\<close> left. Then every one of the \<open>n\<close> calls invokes the step
  once (the calls that leave the process during a call of the wrapper are those of one
  invocation of the step on the state the wrapper hands it); each of the first \<open>n - 1\<close>
  calls re-raises the very exception the step raised; the \<open>n\<close>-th call returns
  \<^verbatim>\<open>{"__route__": "diagnose_errors"}\<close>; and at that point the counter of the node is \<open>n\<close>
  and \<open>n\<close> entries have been appended to the log.
\<close>

theorem retry_bound:
  assumes "1 \<le> n" and "attempt_of name s = 0"
    and "\<forall>st. \<exists>effs e. func st = (effs, Raises e)"
  shows "(\<forall>k. call_sequence (replicate (Suc k) (Decorated name (int n) func)) s
              = snd (snd (error_handler_decorator name (int n) func
                            (call_sequence (replicate k (Decorated name (int n) func)) s))))
       \<and> (\<forall>k<n.
             fst (error_handler_decorator name (int n) func
                    (call_sequence (replicate k (Decorated name (int n) func)) s))
               = fst (func (ensure_error_fields
                        (call_sequence (replicate k (Decorated name (int n) func)) s))))
       \<and> (\<forall>k<n - 1.
             fst (snd (error_handler_decorator name (int n) func
                         (call_sequence (replicate k (Decorated name (int n) func)) s)))
               = snd (func (ensure_error_fields
                        (call_sequence (replicate k (Decorated name (int n) func)) s)))
             \<and> (\<exists>e. snd (func (ensure_error_fields
                        (call_sequence (replicate k (Decorated name (int n) func)) s)))
                     = Raises e))
       \<and> fst (snd (error_handler_decorator name (int n) func
                (call_sequence (replicate (n - 1) (Decorated name (int n) func)) s)))
           = Returns reroute
       \<and> attempt_of name (call_sequence (replicate n (Decorated name (int n) func)) s) = int n
       \<and> length (log_of (call_sequence (replicate n (Decorated name (int n) func)) s))
           = length (log_of s) + n"
proof (intro conjI allI impI)
  fix k
  show "call_sequence (replicate (Suc k) (Decorated name (int n) func)) s
          = snd (snd (error_handler_decorator name (int n) func
                        (call_sequence (replicate k (Decorated name (int n) func)) s)))"
    using call_sequence_Suc [of k "Decorated name (int n) func" s] by simp
next
  fix k
  show "fst (error_handler_decorator name (int n) func
               (call_sequence (replicate k (Decorated name (int n) func)) s))
          = fst (func (ensure_error_fields
                   (call_sequence (replicate k (Decorated name (int n) func)) s)))"
    using failing_call [OF assms(3)] by blast
next
  fix k assume k: "k < n - 1"
  have a: "attempt_of name (call_sequence (replicate k (Decorated name (int n) func)) s) = int k"
    using attempt_after_failures [OF assms(3), of name k "int n" s] assms(2) by simp
  have "\<not> int n \<le> int k + 1"
    using k by auto
  then show "fst (snd (error_handler_decorator name (int n) func
                         (call_sequence (replicate k (Decorated name (int n) func)) s)))
               = snd (func (ensure_error_fields
                        (call_sequence (replicate k (Decorated name (int n) func)) s)))"
    using failing_call [OF assms(3), of name "int n"
        "call_sequence (replicate k (Decorated name (int n) func)) s"] a
    by simp
next
  fix k
  show "\<exists>e. snd (func (ensure_error_fields
                        (call_sequence (replicate k (Decorated name (int n) func)) s)))
                     = Raises e"
    using failing_call [OF assms(3)] by blast
next
  have a: "attempt_of name (call_sequence (replicate (n - 1) (Decorated name (int n) func)) s)
             = int (n - 1)"
    using attempt_after_failures [OF assms(3), of name "n - 1" "int n" s] assms(2) by simp
  have "int n \<le> int (n - 1) + 1"
    using assms(1) by auto
  then show "fst (snd (error_handler_decorator name (int n) func
                (call_sequence (replicate (n - 1) (Decorated name (int n) func)) s)))
           = Returns reroute"
    using failing_call [OF assms(3), of name "int n"
        "call_sequence (replicate (n - 1) (Decorated name (int n) func)) s"] a
    by simp
next
  show "attempt_of name (call_sequence (replicate n (Decorated name (int n) func)) s) = int n"
    using attempt_after_failures [OF assms(3), of name n "int n" s] assms(2) by simp
next
  show "length (log_of (call_sequence (replicate n (Decorated name (int n) func)) s))
          = length (log_of s) + n"
    using attempt_after_failures [OF assms(3), of name n "int n" s] by simp
qed

theorem retry_bound_witness:
  "(1::nat) \<le> 2
   \<and> attempt_of ''define_scope_with_reasoner'' (initial_state ''go'') = 0
   \<and> fst (define_scope_with_reasoner failing_env (initial_state ''go''))
       = [AgentRun ''reasoner''
            (''Analyze user request: go'' @ nl
               @ ''Return a scope for building a Pydantic AI agent.'')]
   \<and> fst (snd (define_scope_with_reasoner failing_env (initial_state ''go''))) = Raises boom
   \<and> fst (define_scope_with_reasoner failing_env
             (snd (snd (define_scope_with_reasoner failing_env (initial_state ''go'')))))
       = [AgentRun ''reasoner''
            (''Analyze user request: go'' @ nl
               @ ''Return a scope for building a Pydantic AI agent.'')]
   \<and> fst (snd (define_scope_with_reasoner failing_env
                  (snd (snd (define_scope_with_reasoner failing_env (initial_state ''go''))))))
       = Returns reroute
   \<and> attempt_of ''define_scope_with_reasoner''
        (snd (snd (define_scope_with_reasoner failing_env
                     (snd (snd (define_scope_with_reasoner failing_env (initial_state ''go'')))))))
       = 2"
proof -
  let ?f = "define_scope_with_reasoner_func failing_env"
  let ?c = "Decorated ''define_scope_with_reasoner'' 2 ?f"
  have a: "attempt_of ''define_scope_with_reasoner'' (initial_state ''go'') = 0"
    by (simp add: attempt_of_def retries_of_def initial_state_def)
  have f: "\<forall>st. \<exists>effs e. ?f st = (effs, Raises e)"
    by (simp add: define_scope_with_reasoner_func_def agent_call_def failing_env_def)
  have n: "(1::nat) \<le> 2"
    by simp
  have r: "replicate 2 ?c = [?c, ?c]" "replicate (Suc 0) ?c = [?c]"
    by (simp_all add: numeral_2_eq_2)
  have m: "latest_user_message (ensure_error_fields t) = latest_user_message t" for t
    by (simp add: ensure_error_fields_def Let_def)
  have u: "latest_user_message
             (snd (snd (error_handler_decorator ''define_scope_with_reasoner'' 2 ?f
                          (initial_state ''go'')))) = ''go''"
    by (simp add: error_handler_decorator_def define_scope_with_reasoner_func_def agent_call_def
        failing_env_def initial_state_def ensure_error_fields_def Let_def)
  have e: "?f t = ([AgentRun ''reasoner''
                      (''Analyze user request: '' @ latest_user_message t @ nl
                         @ ''Return a scope for building a Pydantic AI agent.'')], Raises boom)"
    for t
    by (simp add: define_scope_with_reasoner_func_def agent_call_def failing_env_def)
  note rb = retry_bound [OF n a f]
  note calls = rb [THEN conjunct2, THEN conjunct1, rule_format]
  note raises = rb [THEN conjunct2, THEN conjunct2, THEN conjunct1, rule_format]
  note last = rb [THEN conjunct2, THEN conjunct2, THEN conjunct2, THEN conjunct1]
  note count = rb [THEN conjunct2, THEN conjunct2, THEN conjunct2, THEN conjunct2, THEN conjunct1]
  have "fst (error_handler_decorator ''define_scope_with_reasoner'' 2 ?f (initial_state ''go''))
       = fst (?f (ensure_error_fields (initial_state ''go'')))"
    using calls [of 0] by simp
  moreover have "fst (error_handler_decorator ''define_scope_with_reasoner'' 2 ?f
            (call_sequence [?c] (initial_state ''go'')))
       = fst (?f (ensure_error_fields (call_sequence [?c] (initial_state ''go''))))"
    using calls [of 1] by simp
  moreover have "fst (snd (error_handler_decorator ''define_scope_with_reasoner'' 2 ?f
                             (initial_state ''go'')))
       = snd (?f (ensure_error_fields (initial_state ''go'')))"
    using raises [of 0] by simp
  moreover have "fst (snd (error_handler_decorator ''define_scope_with_reasoner'' 2 ?f
                 (call_sequence [?c] (initial_state ''go'')))) = Returns reroute"
    using last by simp
  moreover have "attempt_of ''define_scope_with_reasoner''
                   (call_sequence [?c, ?c] (initial_state ''go'')) = 2"
    using count by (simp add: r)
  ultimately show ?thesis
    using a u by (simp add: define_scope_with_reasoner_def e m initial_state_def)
qed

text \<open>
  Three inputs at which the claim, read on one call of the wrapper and on any state,
  fails. The scoping step (bound 2) with a reasoner that always raises, from the state
  \<^verbatim>\<open>start_flow\<close> builds: the call invokes the step once and ends by raising, no reroute
  is returned and the counter is 1. The same step called a third time, on the state two
  failed calls left (counter 2): it is invoked once more and the reroute is returned
  with the counter at 3, not 2. And a bound of 0: the failing step is invoked once, not
  zero times, and the reroute is returned with the counter at 1, not 0.
\<close>

theorem retry_bound_counterexample:
  "fst (snd (define_scope_with_reasoner failing_env (initial_state ''go''))) = Raises boom
   \<and> length (fst (define_scope_with_reasoner failing_env (initial_state ''go''))) = 1
   \<and> attempt_of ''define_scope_with_reasoner''
        (snd (snd (define_scope_with_reasoner failing_env (initial_state ''go'')))) = 1
   \<and> attempt_of ''define_scope_with_reasoner''
        (call_sequence
           [Decorated ''define_scope_with_reasoner'' 2 (define_scope_with_reasoner_func failing_env),
            Decorated ''define_scope_with_reasoner'' 2 (define_scope_with_reasoner_func failing_env)]
           (initial_state ''go'')) = 2
   \<and> fst (snd (define_scope_with_reasoner failing_env
        (call_sequence
           [Decorated ''define_scope_with_reasoner'' 2 (define_scope_with_reasoner_func failing_env),
            Decorated ''define_scope_with_reasoner'' 2 (define_scope_with_reasoner_func failing_env)]
           (initial_state ''go'')))) = Returns reroute
   \<and> attempt_of ''define_scope_with_reasoner''
        (snd (snd (define_scope_with_reasoner failing_env
           (call_sequence
              [Decorated ''define_scope_with_reasoner'' 2 (define_scope_with_reasoner_func failing_env),
               Decorated ''define_scope_with_reasoner'' 2 (define_scope_with_reasoner_func failing_env)]
              (initial_state ''go''))))) = 3
   \<and> error_handler_decorator ''coder_agent'' 0 always_fails (initial_state ''go'') =
       ([], Returns (Dict ''__route__'' (Str ''diagnose_errors'')),
        (initial_state ''go'')
          \<lparr>error_log := Some [error_message ''coder_agent'' boom],
           error_retries := Some [(''coder_agent'', 1)]\<rparr>)"
  by (simp add: define_scope_with_reasoner_def error_handler_decorator_def
      define_scope_with_reasoner_func_def agent_call_def failing_env_def always_fails_def
      initial_state_def ensure_error_fields_def attempt_of_def retries_of_def log_of_def
      reroute_def)

text \<open>
  C3, as the code has it. One call of the wrapper invokes the step once: its effects
  are those of that invocation. When the step fails and the incremented count is still
  below the bound, the wrapper appends the log entry, stores the count and re-raises
  the same exception to its caller; it does not invoke the step again.
\<close>

theorem failure_below_bound_reraises:
  assumes "func (ensure_error_fields s) = (effs, Raises e)"
    and "attempt_of name s + 1 < n"
  shows "error_handler_decorator name n func s =
           (effs, Raises e,
            (ensure_error_fields s)
              \<lparr>error_log := Some (log_of s @ [error_message name e]),
               error_retries := Some (AList.update name (attempt_of name s + 1) (retries_of s))\<rparr>)"
  using assms by (simp add: decorator_failure)

theorem failure_below_bound_reraises_witness:
  "always_fails (ensure_error_fields (initial_state ''go'')) = ([], Raises boom)
   \<and> attempt_of ''define_scope_with_reasoner'' (initial_state ''go'') + 1 < 2
   \<and> error_handler_decorator ''define_scope_with_reasoner'' 2 always_fails (initial_state ''go'') =
       ([], Raises boom,
        (initial_state ''go'')
          \<lparr>error_log := Some [error_message ''define_scope_with_reasoner'' boom],
           error_retries := Some [(''define_scope_with_reasoner'', 1)]\<rparr>)"
proof -
  have f: "always_fails (ensure_error_fields (initial_state ''go'')) = ([], Raises boom)"
    by (simp add: always_fails_def)
  have a: "attempt_of ''define_scope_with_reasoner'' (initial_state ''go'') + 1 < 2"
    by (simp add: attempt_of_def retries_of_def initial_state_def)
  from failure_below_bound_reraises [of always_fails, OF f a] show ?thesis
    using f a
    by (simp add: attempt_of_def retries_of_def log_of_def initial_state_def ensure_error_fields_def)
qed

text \<open>
  A step that fails on its first invocation and would succeed on the second, with
  \<^verbatim>\<open>max_retries = 2\<close>: the single call of the wrapper ends by raising the exception to its
  caller with the counter at 1, although the step succeeds on the state the call left.
\<close>

theorem local_retry_counterexample:
  "fst (snd (error_handler_decorator ''define_scope_with_reasoner'' 2 fails_once
               (initial_state ''go''))) = Raises boom
   \<and> attempt_of ''define_scope_with_reasoner''
        (snd (snd (error_handler_decorator ''define_scope_with_reasoner'' 2 fails_once
                     (initial_state ''go'')))) = 1
   \<and> fails_once (snd (snd (error_handler_decorator ''define_scope_with_reasoner'' 2 fails_once
                             (initial_state ''go''))))
       = ([], Returns (Dict ''scope'' (Str ''plan'')))"
  by (simp add: error_handler_decorator_def fails_once_def initial_state_def
      ensure_error_fields_def attempt_of_def retries_of_def log_of_def)

text \<open>
  C6. Whenever the wrapped step returns, the wrapper returns its result and leaves the
  counter of the node at 0, whatever it was before; so also when an earlier invocation
  of the step failed.
\<close>

theorem reset_on_success:
  assumes "func (ensure_error_fields s) = (effs, Returns r)"
  shows "fst (snd (error_handler_decorator name n func s)) = Returns r
       \<and> map_of (retries_of (snd (snd (error_handler_decorator name n func s)))) name = Some 0"
  using assms by (simp add: decorator_success retries_of_def update_conv')

theorem reset_on_success_witness:
  "map_of (retries_of (snd (snd (error_handler_decorator ''define_scope_with_reasoner'' 2 fails_once
                                   (initial_state ''go''))))) ''define_scope_with_reasoner'' = Some 1
   \<and> fst (snd (error_handler_decorator ''define_scope_with_reasoner'' 2 fails_once
                 (snd (snd (error_handler_decorator ''define_scope_with_reasoner'' 2 fails_once
                              (initial_state ''go''))))))
       = Returns (Dict ''scope'' (Str ''plan''))
   \<and> map_of (retries_of
        (snd (snd (error_handler_decorator ''define_scope_with_reasoner'' 2 fails_once
           (snd (snd (error_handler_decorator ''define_scope_with_reasoner'' 2 fails_once
                        (initial_state ''go''))))))))
        ''define_scope_with_reasoner'' = Some 0"
proof -
  let ?s1 = "snd (snd (error_handler_decorator ''define_scope_with_reasoner'' 2 fails_once
                         (initial_state ''go'')))"
  have one: "map_of (retries_of ?s1) ''define_scope_with_reasoner'' = Some 1"
    by (simp add: error_handler_decorator_def fails_once_def initial_state_def
        ensure_error_fields_def attempt_of_def retries_of_def log_of_def)
  have ok: "fails_once (ensure_error_fields ?s1) = ([], Returns (Dict ''scope'' (Str ''plan'')))"
    by (simp add: error_handler_decorator_def fails_once_def initial_state_def
        ensure_error_fields_def attempt_of_def retries_of_def log_of_def)
  from reset_on_success [of fails_once, OF ok] one show ?thesis
    by simp
qed

text \<open>
  C7, as the code has it. A call of a decorated node whose step fails appends exactly
  one entry to \<^verbatim>\<open>error_log\<close>, the formatted message, which contains the node name and the
  text of the exception; a call whose step returns appends nothing. A call of an
  undecorated node (\<^verbatim>\<open>generate_tool_code\<close>, \<^verbatim>\<open>finalize_new_tool\<close>, \<^verbatim>\<open>diagnose_errors\<close>)
  leaves the log as it is, also when the node fails. In every case, and over any
  sequence of node calls, decorated or not, the log before is a prefix of the log
  after: no entry is removed, replaced or reordered and the length never decreases.
\<close>

theorem error_log_append_only:
  "(func (ensure_error_fields s) = (effs, Raises e) \<longrightarrow>
      log_of (snd (snd (error_handler_decorator name n func s)))
        = log_of s @ [error_message name e])
   \<and> (func (ensure_error_fields s) = (effs, Returns r) \<longrightarrow>
        log_of (snd (snd (error_handler_decorator name n func s))) = log_of s)
   \<and> snd (snd (plain func s)) = s
   \<and> fst (snd (plain func s)) = snd (func s)
   \<and> prefix (log_of s) (log_of (snd (snd (error_handler_decorator name n func s))))
   \<and> prefix (log_of s) (log_of (call_sequence calls s))
   \<and> length (log_of s) \<le> length (log_of (call_sequence calls s))
   \<and> sublist name (error_message name e)
   \<and> sublist (exn_str e) (error_message name e)"
proof (intro conjI impI)
  show "prefix (log_of s) (log_of (call_sequence calls s))"
    by (rule call_sequence_log_prefix)
  then show "length (log_of s) \<le> length (log_of (call_sequence calls s))"
    by (rule prefix_length_le)
qed (simp_all add: decorator_success decorator_failure decorator_log_prefix
    error_message_mentions plain_result)

theorem error_log_append_only_witness:
  "log_of (snd (snd (error_handler_decorator ''coder_agent'' 2 always_fails (initial_state ''go''))))
     = [error_message ''coder_agent'' boom]
   \<and> log_of (snd (snd (error_handler_decorator ''coder_agent'' 2 coder_agent_func
                         (initial_state ''go'')))) = []
   \<and> prefix (log_of (initial_state ''go''))
        (log_of (call_sequence
                   [Decorated ''coder_agent'' 2 always_fails,
                    Undecorated (generate_tool_code failing_env),
                    Decorated ''coder_agent'' 2 coder_agent_func]
                   (initial_state ''go'')))"
proof -
  have f: "always_fails (ensure_error_fields (initial_state ''go'')) = ([], Raises boom)"
    by (simp add: always_fails_def)
  have g: "coder_agent_func (ensure_error_fields (initial_state ''go''))
             = ([], Returns (Dict ''messages'' (Blobs [])))"
    by (simp add: coder_agent_func_def)
  have l: "log_of (initial_state ''go'') = []"
    by (simp add: log_of_def initial_state_def)
  from error_log_append_only [of always_fails "initial_state ''go''" "[]" boom "''coder_agent''" 2
      "Dict ''messages'' (Blobs [])"
      "[Decorated ''coder_agent'' 2 always_fails, Undecorated (generate_tool_code failing_env),
        Decorated ''coder_agent'' 2 coder_agent_func]"]
    error_log_append_only [of coder_agent_func "initial_state ''go''" "[]" boom "''coder_agent''" 2
      "Dict ''messages'' (Blobs [])" "[]"]
  show ?thesis
    using f g l by simp
qed

text \<open>
  The tool generator node with an agent that raises: the invocation of the step fails
  and no entry is appended to the log.
\<close>

theorem error_log_append_only_counterexample:
  "fst (snd (plain (generate_tool_code failing_env) (initial_state ''make a tool''))) = Raises boom
   \<and> log_of (snd (snd (plain (generate_tool_code failing_env) (initial_state ''make a tool'')))) = []
   \<and> log_of (initial_state ''make a tool'') = []"
  by (simp add: plain_def generate_tool_code_def agent_call_def failing_env_def log_of_def
      initial_state_def)

section \<open>The router\<close>

lemma lower_latin1_examples:
  "lower [CHR 0xC9, CHR 0xC0, CHR 0xDE] = [CHR 0xE9, CHR 0xE0, CHR 0xFE]
   \<and> lower [CHR 0xD7, CHR 0xDF, CHR 0xF7, CHR 0xFF, CHR 0x5B, CHR 0x40] =
         [CHR 0xD7, CHR 0xDF, CHR 0xF7, CHR 0xFF, CHR 0x5B, CHR 0x40]"
  by (simp add: lower_def lower_char_def upper_letters_def lower_letters_def)

lemma str_contains_sublist: "str_contains sub s \<longleftrightarrow> sublist sub s"
  by (induction s) (auto simp: sublist_Cons_right)

lemma route_user_message_returns:
  assumes "router_agent_run env (lower (latest_user_message s)) = Inr answer"
  shows "route_user_message_func env (ensure_error_fields s) =
           ([AgentRun ''router_agent'' (lower (latest_user_message s))],
            Returns (Label
              (if sublist ''finish'' (lower (latest_user_message s)) then ''finish_conversation''
               else if sublist ''create tool'' (lower (latest_user_message s))
                       \<or> sublist ''new plugin'' (lower (latest_user_message s))
               then ''create_tool''
               else ''coder_agent'')))"
  using assms
  by (simp add: route_user_message_func_def agent_call_def Let_def str_contains_sublist
      ensure_error_fields_def)

lemma route_user_message_raises:
  assumes "router_agent_run env (lower (latest_user_message s)) = Inl e"
  shows "route_user_message_func env (ensure_error_fields s) =
           ([AgentRun ''router_agent'' (lower (latest_user_message s))], Raises e)"
  using assms
  by (simp add: route_user_message_func_def agent_call_def Let_def ensure_error_fields_def)

text \<open>
  C2, as the code has it. The router runs the router agent on the lowered message.
  Whenever that run returns, the step returns exactly one label, decided on the lowered
  message: \<^verbatim>\<open>finish_conversation\<close> if it contains "finish"; otherwise \<^verbatim>\<open>create_tool\<close> if it
  contains "create tool" or "new plugin"; otherwise \<^verbatim>\<open>coder_agent\<close>. When the run raises,
  the decorated step (bound 1) returns no label: it returns
  \<^verbatim>\<open>{"__route__": "diagnose_errors"}\<close> when the stored counter of the router is not
  negative, and re-raises when it is. No stored counter is negative in the state
  \<^verbatim>\<open>start_flow\<close> builds, and a call of the decorator keeps it so; hence in every state
  the code produces a raising run gives the reroute.
\<close>

theorem route_label:
  "(router_agent_run env (lower (latest_user_message s)) = Inr answer \<longrightarrow>
      fst (snd (route_user_message env s)) =
        Returns (Label
          (if sublist ''finish'' (lower (latest_user_message s)) then ''finish_conversation''
           else if sublist ''create tool'' (lower (latest_user_message s))
                   \<or> sublist ''new plugin'' (lower (latest_user_message s))
           then ''create_tool''
           else ''coder_agent'')))
   \<and> (router_agent_run env (lower (latest_user_message s)) = Inl e \<longrightarrow>
        fst (snd (route_user_message env s)) =
          (if 0 \<le> attempt_of ''route_user_message'' s then Returns reroute else Raises e))
   \<and> (counters_nonneg s \<longrightarrow> 0 \<le> attempt_of ''route_user_message'' s)
   \<and> counters_nonneg (initial_state m)
   \<and> (counters_nonneg s \<longrightarrow>
        counters_nonneg (snd (snd (error_handler_decorator name n func s))))"
  by (simp add: route_user_message_def decorator_success decorator_failure
      route_user_message_returns route_user_message_raises counters_nonneg_attempt
      counters_nonneg_initial counters_nonneg_decorator)

theorem route_label_witness:
  "router_agent_run working_env (lower (latest_user_message (initial_state ''Please FINISH now'')))
     = Inr ''ok''
   \<and> fst (snd (route_user_message working_env (initial_state ''Please FINISH now'')))
       = Returns (Label ''finish_conversation'')
   \<and> fst (snd (route_user_message working_env (initial_state ''Build a NEW plugin for Slack'')))
       = Returns (Label ''create_tool'')
   \<and> fst (snd (route_user_message working_env (initial_state ''add a retry loop'')))
       = Returns (Label ''coder_agent'')
   \<and> router_agent_run failing_env (lower (latest_user_message (initial_state ''hello''))) = Inl boom
   \<and> counters_nonneg (initial_state ''hello'')
   \<and> fst (snd (route_user_message failing_env (initial_state ''hello''))) = Returns reroute"
proof -
  have w: "router_agent_run working_env p = Inr ''ok''" for p
    by (simp add: working_env_def)
  have f: "router_agent_run failing_env p = Inl boom" for p
    by (simp add: failing_env_def)
  have m: "latest_user_message (initial_state x) = x" for x
    by (simp add: initial_state_def)
  have l1: "lower ''Please FINISH now'' = ''please finish now''"
    by (simp add: lower_def lower_char_def upper_letters_def lower_letters_def)
  have l2: "lower ''Build a NEW plugin for Slack'' = ''build a new plugin for slack''"
    by (simp add: lower_def lower_char_def upper_letters_def lower_letters_def)
  have l3: "lower ''add a retry loop'' = ''add a retry loop''"
    by (simp add: lower_def lower_char_def upper_letters_def lower_letters_def)
  from route_label [of working_env "initial_state ''Please FINISH now'' " "''ok''" boom "''x''"
      "''n''" 1 always_fails]
    route_label [of working_env "initial_state ''Build a NEW plugin for Slack'' " "''ok''" boom
      "''x''" "''n''" 1 always_fails]
    route_label [of working_env "initial_state ''add a retry loop'' " "''ok''" boom "''x''"
      "''n''" 1 always_fails]
    route_label [of failing_env "initial_state ''hello'' " "''ok''" boom "''hello''"
      "''n''" 1 always_fails]
  show ?thesis
    by (simp add: w f m l1 l2 l3 str_contains_sublist [symmetric])
qed

text \<open>
  The message "finish" with a router agent that raises: the step returns the reroute
  dictionary, none of the three labels.
\<close>

theorem route_label_counterexample:
  "fst (snd (route_user_message failing_env (initial_state ''finish'')))
     = Returns (Dict ''__route__'' (Str ''diagnose_errors''))"
  by (simp add: route_user_message_def error_handler_decorator_def route_user_message_func_def
      agent_call_def failing_env_def initial_state_def ensure_error_fields_def attempt_of_def
      retries_of_def log_of_def reroute_def)

section \<open>Finalising a generated tool\<close>

lemma strip_empty: "strip c = [] \<longleftrightarrow> list_all py_isspace c"
proof
  assume "strip c = []"
  then have "\<forall>x\<in>set (dropWhile py_isspace c). py_isspace x"
    by (simp add: strip_def dropWhile_eq_Nil_conv)
  then have "dropWhile py_isspace c = []"
    using hd_dropWhile [of py_isspace c] by (cases "dropWhile py_isspace c") auto
  then show "list_all py_isspace c"
    by (simp add: dropWhile_eq_Nil_conv list_all_iff)
next
  assume "list_all py_isspace c"
  then show "strip c = []"
    by (auto simp: strip_def list_all_iff dest: set_dropWhileD)
qed

text \<open>
  C5. When \<^verbatim>\<open>generated_code\<close> is missing, empty or white space only (every character
  one that \<^verbatim>\<open>str.strip()\<close> removes), the node returns the
  status "No code generated." and makes no call at all: no file is written and the
  plugin registry is not reloaded. When it holds any other text, the first call the
  node makes is the write of that text to \<^verbatim>\<open>plugins/tool_generated.py\<close>; once the write
  has succeeded the reload of \<^verbatim>\<open>plugins\<close> follows, and once both have succeeded the
  status is "Plugin created: tool_generated.py".
\<close>

theorem finalize_short_circuit:
  "((generated_code s = None \<or> (\<exists>c. generated_code s = Some c \<and> list_all py_isspace c)) \<longrightarrow>
      finalize_new_tool env s =
        ([], Returns (Dict ''tool_creation_status'' (Str ''No code generated.''))))
   \<and> (generated_code s = Some code \<and> \<not> list_all py_isspace code \<longrightarrow>
        (\<exists>rest out. finalize_new_tool env s =
           (WriteFile ''plugins/tool_generated.py'' code # rest, out))
        \<and> (write_file env ''plugins/tool_generated.py'' code = None \<longrightarrow>
             fst (finalize_new_tool env s) =
               [WriteFile ''plugins/tool_generated.py'' code, LoadPlugins ''plugins''])
        \<and> (write_file env ''plugins/tool_generated.py'' code = None
             \<and> load_plugins env ''plugins'' = None \<longrightarrow>
             snd (finalize_new_tool env s) =
               Returns (Dict ''tool_creation_status'' (Str ''Plugin created: tool_generated.py''))))"
  by (auto simp: finalize_new_tool_def strip_empty Let_def split: option.splits)

theorem finalize_short_circuit_witness:
  "finalize_new_tool working_env (initial_state ''make a tool'') =
     ([], Returns (Dict ''tool_creation_status'' (Str ''No code generated.'')))
   \<and> finalize_new_tool working_env
        ((initial_state ''make a tool'')\<lparr>generated_code := Some [CHR '' '', CHR 0xA0, CHR 0x85, CHR 0x09]\<rparr>) =
       ([], Returns (Dict ''tool_creation_status'' (Str ''No code generated.'')))
   \<and> fst (finalize_new_tool working_env
             ((initial_state ''make a tool'')\<lparr>generated_code := Some ''x = 1''\<rparr>)) =
       [WriteFile ''plugins/tool_generated.py'' ''x = 1'', LoadPlugins ''plugins'']
   \<and> snd (finalize_new_tool working_env
             ((initial_state ''make a tool'')\<lparr>generated_code := Some ''x = 1''\<rparr>)) =
       Returns (Dict ''tool_creation_status'' (Str ''Plugin created: tool_generated.py''))"
proof -
  have a: "generated_code (initial_state ''make a tool'') = None"
    by (simp add: initial_state_def)
  have b: "list_all py_isspace [CHR '' '', CHR 0xA0, CHR 0x85, CHR 0x09]"
    by (simp add: py_isspace_def)
  have c: "\<not> list_all py_isspace ''x = 1''"
    by (simp add: py_isspace_def)
  have w: "write_file working_env p x = None" "load_plugins working_env d = None" for p x d
    by (simp_all add: working_env_def)
  from finalize_short_circuit [of "initial_state ''make a tool'' " working_env "[]"]
    finalize_short_circuit
      [of "(initial_state ''make a tool'')\<lparr>generated_code := Some [CHR '' '', CHR 0xA0, CHR 0x85, CHR 0x09]\<rparr>"
        working_env "[]"]
    finalize_short_circuit
      [of "(initial_state ''make a tool'')\<lparr>generated_code := Some ''x = 1''\<rparr>" working_env "''x = 1''"]
  show ?thesis
    using a b c w by simp
qed

section \<open>Diagnostics\<close>

lemma diagnose_feedback:
  "\<exists>effs fb. diagnose_errors env s = (effs, Returns (Dict ''diagnostic_feedback'' (Str fb)))"
  by (simp add: diagnose_errors_def Let_def split: sum.splits)

lemma diagnose_feedback_v2:
  "\<exists>effs fb. diagnose_errors_v2 env s = (effs, Returns (Dict ''diagnostic_feedback'' (Str fb)))"
  by (simp add: diagnose_errors_v2_def Let_def split: sum.splits)

lemma last3_suffix: "suffix (last3 xs) xs \<and> length (last3 xs) = min 3 (length xs)"
  by (auto simp: last3_def suffix_drop)

text \<open>
  C10, as the code has it. In both iterations \<^verbatim>\<open>diagnose_errors\<close> returns, for every
  state and whatever the diagnostic agent does, a dictionary with a
  \<^verbatim>\<open>diagnostic_feedback\<close> text; it never raises. With an empty (or missing) log it makes
  no call and returns a fixed message: "No errors found to diagnose." in zippy-archon,
  "No errors to diagnose." in v2-agentic-workflow. Otherwise it makes one call, the
  diagnostic agent run on a prompt built from the last three entries of the log (all of
  them when there are fewer); the feedback is the agent's answer, or, when the run
  raises, the failure text built from the exception.
\<close>

theorem diagnose_errors_total:
  "(\<exists>effs fb. diagnose_errors env s = (effs, Returns (Dict ''diagnostic_feedback'' (Str fb))))
   \<and> (\<exists>effs fb. diagnose_errors_v2 env s = (effs, Returns (Dict ''diagnostic_feedback'' (Str fb))))
   \<and> (log_of s = [] \<longrightarrow>
        diagnose_errors env s =
          ([], Returns (Dict ''diagnostic_feedback'' (Str ''No errors found to diagnose.'')))
        \<and> diagnose_errors_v2 env s =
            ([], Returns (Dict ''diagnostic_feedback'' (Str ''No errors to diagnose.''))))
   \<and> (log_of s \<noteq> [] \<longrightarrow>
        fst (diagnose_errors env s)
          = [AgentRun ''diagnostic_agent'' (diagnostic_prompt (last3 (log_of s)))]
        \<and> fst (diagnose_errors_v2 env s)
            = [AgentRun ''diagnostic_agent'' (diagnostic_prompt_v2 (last3 (log_of s)))])
   \<and> (log_of s \<noteq> [] \<and> diagnostic_agent_run env (diagnostic_prompt (last3 (log_of s))) = Inr d \<longrightarrow>
        snd (diagnose_errors env s) = Returns (Dict ''diagnostic_feedback'' (Str d)))
   \<and> (log_of s \<noteq> [] \<and> diagnostic_agent_run env (diagnostic_prompt (last3 (log_of s))) = Inl e \<longrightarrow>
        snd (diagnose_errors env s) = Returns (Dict ''diagnostic_feedback'' (Str (fail_msg e))))
   \<and> (log_of s \<noteq> [] \<and> diagnostic_agent_run env (diagnostic_prompt_v2 (last3 (log_of s))) = Inr d \<longrightarrow>
        snd (diagnose_errors_v2 env s) = Returns (Dict ''diagnostic_feedback'' (Str d)))
   \<and> (log_of s \<noteq> [] \<and> diagnostic_agent_run env (diagnostic_prompt_v2 (last3 (log_of s))) = Inl e \<longrightarrow>
        snd (diagnose_errors_v2 env s) = Returns (Dict ''diagnostic_feedback'' (Str (fail_msg e))))
   \<and> suffix (last3 (log_of s)) (log_of s)
   \<and> length (last3 (log_of s)) = min 3 (length (log_of s))"
  by (simp add: diagnose_feedback diagnose_feedback_v2 last3_suffix)
     (simp add: diagnose_errors_def diagnose_errors_v2_def Let_def)

theorem diagnose_errors_total_witness:
  "diagnose_errors failing_env (initial_state ''go'') =
     ([], Returns (Dict ''diagnostic_feedback'' (Str ''No errors found to diagnose.'')))
   \<and> diagnose_errors failing_env
        ((initial_state ''go'')\<lparr>error_log := Some [''e1'', ''e2'', ''e3'', ''e4'']\<rparr>) =
       ([AgentRun ''diagnostic_agent'' (diagnostic_prompt [''e2'', ''e3'', ''e4''])],
        Returns (Dict ''diagnostic_feedback'' (Str (fail_msg boom))))
   \<and> diagnose_errors_v2 working_env
        ((initial_state ''go'')\<lparr>error_log := Some [''e1'', ''e2'', ''e3'', ''e4'']\<rparr>) =
       ([AgentRun ''diagnostic_agent'' (diagnostic_prompt_v2 [''e2'', ''e3'', ''e4''])],
        Returns (Dict ''diagnostic_feedback'' (Str ''ok'')))"
proof -
  let ?s = "(initial_state ''go'')\<lparr>error_log := Some [''e1'', ''e2'', ''e3'', ''e4'']\<rparr>"
  have l0: "log_of (initial_state ''go'') = []"
    by (simp add: log_of_def initial_state_def)
  have l4: "log_of ?s = [''e1'', ''e2'', ''e3'', ''e4'']"
    by simp
  have l3: "last3 [''e1'', ''e2'', ''e3'', ''e4''] = [''e2'', ''e3'', ''e4'']"
    by (simp add: last3_def)
  have f: "diagnostic_agent_run failing_env p = Inl boom" for p
    by (simp add: failing_env_def)
  have w: "diagnostic_agent_run working_env p = Inr ''ok''" for p
    by (simp add: working_env_def)
  from diagnose_errors_total [of failing_env "initial_state ''go'' " "''ok''" boom]
    diagnose_errors_total [of failing_env ?s "''ok''" boom]
    diagnose_errors_total [of working_env ?s "''ok''" boom]
  show ?thesis
    unfolding l0 l4 l3 f w by (simp add: prod_eq_iff)
qed

text \<open>
  The v2-agentic-workflow iteration on a state with an empty log: its fixed message is
  not "No errors found to diagnose.".
\<close>

theorem diagnose_errors_message_counterexample:
  "diagnose_errors_v2 working_env (initial_state ''go'') =
     ([], Returns (Dict ''diagnostic_feedback'' (Str ''No errors to diagnose.'')))
   \<and> snd (diagnose_errors_v2 working_env (initial_state ''go'')) \<noteq>
       Returns (Dict ''diagnostic_feedback'' (Str ''No errors found to diagnose.''))"
  by (simp add: diagnose_errors_v2_def log_of_def initial_state_def)

section \<open>Starting and resuming a flow\<close>

text \<open>
  C9. \<^verbatim>\<open>start_flow(message)\<close> hands the graph's \<^verbatim>\<open>run\<close> a fresh state whose
  \<^verbatim>\<open>latest_user_message\<close> is the message, whose \<^verbatim>\<open>messages\<close>, \<^verbatim>\<open>scope\<close>, \<^verbatim>\<open>error_log\<close> and
  \<^verbatim>\<open>error_retries\<close> are empty, and which has no other key; so the log and the retry
  counters are empty before the first step runs.
\<close>

theorem start_flow_initial_state:
  "start_flow fw graph user_message =
     graph_run fw graph (InitialState (initial_state user_message))
   \<and> latest_user_message (initial_state user_message) = user_message
   \<and> messages (initial_state user_message) = []
   \<and> scope (initial_state user_message) = []
   \<and> error_log (initial_state user_message) = Some []
   \<and> error_retries (initial_state user_message) = Some []
   \<and> generated_code (initial_state user_message) = None
   \<and> tool_creation_status (initial_state user_message) = None
   \<and> diagnostic_feedback (initial_state user_message) = None
   \<and> log_of (initial_state user_message) = []
   \<and> attempt_of name (initial_state user_message) = 0"
  by (simp add: start_flow_def initial_state_def log_of_def attempt_of_def retries_of_def)

theorem start_flow_initial_state_witness:
  "start_flow recording_framework [] ''hello'' =
     (Returns ''ok'',
      [InitialState \<lparr>latest_user_message = ''hello'', messages = [], scope = [],
                     error_log = Some [], error_retries = Some [],
                     generated_code = None, tool_creation_status = None,
                     diagnostic_feedback = None\<rparr>])"
  using start_flow_initial_state [of recording_framework "[]" "''hello''" "''coder_agent''"]
  by (simp add: recording_framework_def initial_state_def)

lemma update_new_key: "map_of al k = None \<Longrightarrow> AList.update k v al = al @ [(k, v)]"
  by (induction al) (auto split: if_splits)

lemma update_appended_key:
  "map_of al k = None \<Longrightarrow> AList.update k v (al @ [(k, w)]) = al @ [(k, v)]"
  by (induction al) (auto split: if_splits)

lemma server_resume_flow_new_session:
  assumes n: "map_of orchestrators session_id = None"
    and g: "graph_run fw (new_graph fw) (UserMessage user_message) = (out, graph1)"
  shows "server_resume_flow fw orchestrators (Some user_message) (Some session_id) =
           (case out of
              Raises e \<Rightarrow> (Raises e, orchestrators @ [(session_id, graph1)])
            | Returns r \<Rightarrow>
                (Returns \<lparr>resp_result = result_str fw r, resp_state = graph_state fw graph1,
                          resp_session_id = session_id\<rparr>,
                 orchestrators @ [(session_id, graph1)]))"
proof -
  have 1: "AList.update session_id (new_graph fw) orchestrators
             = orchestrators @ [(session_id, new_graph fw)]"
    using n by (rule update_new_key)
  have 2: "AList.update session_id graph1 (orchestrators @ [(session_id, new_graph fw)])
             = orchestrators @ [(session_id, graph1)]"
    using n by (rule update_appended_key)
  show ?thesis
    by (simp add: server_resume_flow_def resume_flow_def n g 1 2 map_add_def Let_def
        split: outcome.splits)
qed

text \<open>
  C4, as the code has it. \<^verbatim>\<open>resume_flow\<close> checks nothing: it hands the message to the
  graph's \<^verbatim>\<open>run\<close> and its outcome is that run's outcome, for every graph object, suspended
  or not. The \<^verbatim>\<open>/resume_flow\<close> handler, given a session id it does not know, builds a new
  orchestrator, registers it under that id and resumes it; when the run returns, the
  handler returns the response. No \<^verbatim>\<open>SessionNotSuspendedError\<close> is raised by the
  repository's code.
\<close>

theorem resume_flow_unchecked:
  "resume_flow fw graph user_message = graph_run fw graph (UserMessage user_message)
   \<and> (map_of orchestrators session_id = None
        \<and> graph_run fw (new_graph fw) (UserMessage user_message) = (Returns r, graph1) \<longrightarrow>
      server_resume_flow fw orchestrators (Some user_message) (Some session_id) =
        (Returns \<lparr>resp_result = result_str fw r, resp_state = graph_state fw graph1,
                  resp_session_id = session_id\<rparr>,
         orchestrators @ [(session_id, graph1)]))
   \<and> (map_of orchestrators session_id = None
        \<and> graph_run fw (new_graph fw) (UserMessage user_message) = (Raises e, graph1) \<longrightarrow>
      server_resume_flow fw orchestrators (Some user_message) (Some session_id) =
        (Raises e, orchestrators @ [(session_id, graph1)]))"
  by (simp add: resume_flow_def server_resume_flow_new_session)

theorem resume_flow_unchecked_witness:
  "map_of ([] :: (string \<times> graph_input list) list) ''s1'' = None
   \<and> graph_run recording_framework (new_graph recording_framework) (UserMessage ''hello'')
       = (Returns ''ok'', [UserMessage ''hello''])
   \<and> server_resume_flow recording_framework [] (Some ''hello'') (Some ''s1'') =
       (Returns \<lparr>resp_result = ''ok'', resp_state = initial_state [], resp_session_id = ''s1''\<rparr>,
        [(''s1'', [UserMessage ''hello''])])"
proof -
  have g: "graph_run recording_framework (new_graph recording_framework) (UserMessage ''hello'')
             = (Returns ''ok'', [UserMessage ''hello''])"
    by (simp add: recording_framework_def)
  from resume_flow_unchecked [of recording_framework "[]" "''hello''" "[]" "''s1''" "''ok''"
      "[UserMessage ''hello'']" boom]
  show ?thesis
    using g by (simp add: recording_framework_def)
qed

text \<open>
  A session that was never started, so that nothing is suspended: \<^verbatim>\<open>resume_flow\<close> on a
  new orchestrator returns what the run returns, and the handler, with no session id in
  the request and no orchestrator registered, registers one under "default" and answers
  with a response instead of failing.
\<close>

theorem resume_flow_counterexample:
  "resume_flow recording_framework (new_graph recording_framework) ''hello''
     = (Returns ''ok'', [UserMessage ''hello''])
   \<and> server_resume_flow recording_framework [] (Some ''hello'') None =
       (Returns \<lparr>resp_result = ''ok'', resp_state = initial_state [],
                 resp_session_id = ''default''\<rparr>,
        [(''default'', [UserMessage ''hello''])])"
  by (simp add: resume_flow_def server_resume_flow_def recording_framework_def Let_def)

section \<open>Escalation to the diagnostics node\<close>

lemma traverse_diagnose:
  "\<exists>fb. traverse env (Suc (Suc fuel)) (Node ''diagnose_errors'') s =
     ([''diagnose_errors''], FinalState (s\<lparr>diagnostic_feedback := Some fb\<rparr>))"
proof -
  obtain effs fb where
    "diagnose_errors env s = (effs, Returns (Dict ''diagnostic_feedback'' (Str fb)))"
    using diagnose_feedback by blast
  then have "traverse env (Suc (Suc fuel)) (Node ''diagnose_errors'') s =
     ([''diagnose_errors''], FinalState (s\<lparr>diagnostic_feedback := Some fb\<rparr>))"
    by (simp add: nodes_def plain_def edges_def merge_update_def executed_def)
  then show ?thesis by blast
qed

lemma traverse_reroute:
  assumes "map_of (nodes env) name = Some func" and "func s = (effs, Returns reroute, s1)"
  shows "\<exists>fb. traverse env (Suc (Suc (Suc fuel))) (Node name) s =
     ([name, ''diagnose_errors''], FinalState (s1\<lparr>diagnostic_feedback := Some fb\<rparr>))"
proof -
  have n: "name \<noteq> ''get_next_user_message''"
    using assms(1) by (auto simp: nodes_def split: if_splits)
  obtain fb where "traverse env (Suc (Suc fuel)) (Node ''diagnose_errors'') s1 =
     ([''diagnose_errors''], FinalState (s1\<lparr>diagnostic_feedback := Some fb\<rparr>))"
    using traverse_diagnose by blast
  then have "traverse env (Suc (Suc (Suc fuel))) (Node name) s =
     ([name, ''diagnose_errors''], FinalState (s1\<lparr>diagnostic_feedback := Some fb\<rparr>))"
    using n assms by (simp add: reroute_def executed_def)
  then show ?thesis by blast
qed

lemma resume_reroute:
  assumes "route_user_message env (s\<lparr>latest_user_message := m\<rparr>) = (effs, Returns reroute, s1)"
  shows "\<exists>fb. resume env (Suc (Suc fuel)) s m =
     ([''route_user_message'', ''diagnose_errors''],
      FinalState (s1\<lparr>diagnostic_feedback := Some fb\<rparr>))"
proof -
  obtain fb where "traverse env (Suc (Suc fuel)) (Node ''diagnose_errors'') s1 =
     ([''diagnose_errors''], FinalState (s1\<lparr>diagnostic_feedback := Some fb\<rparr>))"
    using traverse_diagnose by blast
  then have "resume env (Suc (Suc fuel)) s m =
     ([''route_user_message'', ''diagnose_errors''],
      FinalState (s1\<lparr>diagnostic_feedback := Some fb\<rparr>))"
    using assms by (simp add: resume_def reroute_def executed_def)
  then show ?thesis by blast
qed

lemma exhausted_define_scope:
  assumes "reasoner_run env
             (''Analyze user request: '' @ latest_user_message s @ nl
                @ ''Return a scope for building a Pydantic AI agent.'') = Inl e"
    and "1 \<le> attempt_of ''define_scope_with_reasoner'' s"
  shows "\<exists>effs s1. define_scope_with_reasoner env s = (effs, Returns reroute, s1)"
proof -
  have "\<exists>effs. define_scope_with_reasoner_func env (ensure_error_fields s) = (effs, Raises e)"
    using assms(1)
    by (simp add: define_scope_with_reasoner_func_def agent_call_def ensure_error_fields_def
        Let_def)
  then show ?thesis
    using assms(2) by (auto simp: define_scope_with_reasoner_def decorator_failure)
qed

lemma exhausted_finish_conversation:
  assumes "end_conversation_agent_run env
             (''User last message: '' @ latest_user_message s @ nl @ ''Please say goodbye.'') = Inl e"
    and "0 \<le> attempt_of ''finish_conversation'' s"
  shows "\<exists>effs s1. finish_conversation env s = (effs, Returns reroute, s1)"
proof -
  have "\<exists>effs. finish_conversation_func env (ensure_error_fields s) = (effs, Raises e)"
    using assms(1)
    by (simp add: finish_conversation_func_def agent_call_def ensure_error_fields_def Let_def)
  then show ?thesis
    using assms(2) by (auto simp: finish_conversation_def decorator_failure)
qed

lemma exhausted_route_user_message:
  assumes "router_agent_run env (lower m) = Inl e"
    and "0 \<le> attempt_of ''route_user_message'' s"
  shows "\<exists>effs s1. route_user_message env (s\<lparr>latest_user_message := m\<rparr>)
           = (effs, Returns reroute, s1)"
proof -
  have "route_user_message_func env (ensure_error_fields (s\<lparr>latest_user_message := m\<rparr>))
          = ([AgentRun ''router_agent'' (lower m)], Raises e)"
    using assms(1) route_user_message_raises [of env "s\<lparr>latest_user_message := m\<rparr>" e]
    by simp
  moreover have "attempt_of ''route_user_message'' (s\<lparr>latest_user_message := m\<rparr>)
                   = attempt_of ''route_user_message'' s"
    by (simp add: attempt_of_def retries_of_def)
  ultimately show ?thesis
    using assms(2) by (simp add: route_user_message_def decorator_failure)
qed

lemma nodes_define_scope:
  "map_of (nodes env) ''define_scope_with_reasoner'' = Some (define_scope_with_reasoner env)"
  by (simp add: nodes_def)

lemma nodes_finish_conversation:
  "map_of (nodes env) ''finish_conversation'' = Some (finish_conversation env)"
  by (simp add: nodes_def)

text \<open>
  C8, as the code has it. From the diagnostics node the traversal executes that node
  alone and ends at END with the final state, the state it started from with the
  feedback added. So when a node of the graph returns the reroute, the nodes executed
  from there on are that one invocation and \<^verbatim>\<open>diagnose_errors\<close>, and the traversal ends at
  END; the same holds when the router returns the reroute on resuming. The step that
  failed is not invoked again. In particular a failure that exhausts the bound of a
  decorated step (the second failure in a row of the scoping step, any failure of the
  goodbye step or of the router) ends the traversal at END through the diagnostics
  node. Diagnostics is the fallback for those failures only: a failure of the scoping
  step below its bound is re-raised by the decorator, with no reroute.
\<close>

theorem escalation_terminality:
  "(\<exists>fb. traverse env (Suc (Suc fuel)) (Node ''diagnose_errors'') s =
           ([''diagnose_errors''], FinalState (s\<lparr>diagnostic_feedback := Some fb\<rparr>)))
   \<and> (map_of (nodes env) name = Some func \<and> func s = (effs, Returns reroute, s1) \<longrightarrow>
        (\<exists>fb. traverse env (Suc (Suc (Suc fuel))) (Node name) s =
           ([name, ''diagnose_errors''], FinalState (s1\<lparr>diagnostic_feedback := Some fb\<rparr>))))
   \<and> (route_user_message env (s\<lparr>latest_user_message := m\<rparr>) = (effs, Returns reroute, s1) \<longrightarrow>
        (\<exists>fb. resume env (Suc (Suc fuel)) s m =
           ([''route_user_message'', ''diagnose_errors''],
            FinalState (s1\<lparr>diagnostic_feedback := Some fb\<rparr>))))
   \<and> (reasoner_run env
          (''Analyze user request: '' @ latest_user_message s @ nl
             @ ''Return a scope for building a Pydantic AI agent.'') = Inl e
        \<and> 1 \<le> attempt_of ''define_scope_with_reasoner'' s \<longrightarrow>
        (\<exists>st. traverse env (Suc (Suc (Suc fuel))) (Node ''define_scope_with_reasoner'') s =
           ([''define_scope_with_reasoner'', ''diagnose_errors''], FinalState st)))
   \<and> (end_conversation_agent_run env
          (''User last message: '' @ latest_user_message s @ nl @ ''Please say goodbye.'') = Inl e
        \<and> 0 \<le> attempt_of ''finish_conversation'' s \<longrightarrow>
        (\<exists>st. traverse env (Suc (Suc (Suc fuel))) (Node ''finish_conversation'') s =
           ([''finish_conversation'', ''diagnose_errors''], FinalState st)))
   \<and> (router_agent_run env (lower m) = Inl e \<and> 0 \<le> attempt_of ''route_user_message'' s \<longrightarrow>
        (\<exists>st. resume env (Suc (Suc fuel)) s m =
           ([''route_user_message'', ''diagnose_errors''], FinalState st)))
   \<and> (reasoner_run env
          (''Analyze user request: '' @ latest_user_message s @ nl
             @ ''Return a scope for building a Pydantic AI agent.'') = Inl e
        \<and> attempt_of ''define_scope_with_reasoner'' s < 1 \<longrightarrow>
        fst (snd (define_scope_with_reasoner env s)) = Raises e)"
proof (intro conjI impI)
  show "\<exists>fb. traverse env (Suc (Suc fuel)) (Node ''diagnose_errors'') s =
           ([''diagnose_errors''], FinalState (s\<lparr>diagnostic_feedback := Some fb\<rparr>))"
    by (rule traverse_diagnose)
next
  assume "map_of (nodes env) name = Some func \<and> func s = (effs, Returns reroute, s1)"
  then show "\<exists>fb. traverse env (Suc (Suc (Suc fuel))) (Node name) s =
           ([name, ''diagnose_errors''], FinalState (s1\<lparr>diagnostic_feedback := Some fb\<rparr>))"
    using traverse_reroute by blast
next
  assume "route_user_message env (s\<lparr>latest_user_message := m\<rparr>) = (effs, Returns reroute, s1)"
  then show "\<exists>fb. resume env (Suc (Suc fuel)) s m =
           ([''route_user_message'', ''diagnose_errors''],
            FinalState (s1\<lparr>diagnostic_feedback := Some fb\<rparr>))"
    by (rule resume_reroute)
next
  assume "reasoner_run env
          (''Analyze user request: '' @ latest_user_message s @ nl
             @ ''Return a scope for building a Pydantic AI agent.'') = Inl e
        \<and> 1 \<le> attempt_of ''define_scope_with_reasoner'' s"
  then obtain effs' s' where "define_scope_with_reasoner env s = (effs', Returns reroute, s')"
    using exhausted_define_scope by blast
  from traverse_reroute [OF nodes_define_scope this]
  show "\<exists>st. traverse env (Suc (Suc (Suc fuel))) (Node ''define_scope_with_reasoner'') s =
           ([''define_scope_with_reasoner'', ''diagnose_errors''], FinalState st)"
    by blast
next
  assume "end_conversation_agent_run env
          (''User last message: '' @ latest_user_message s @ nl @ ''Please say goodbye.'') = Inl e
        \<and> 0 \<le> attempt_of ''finish_conversation'' s"
  then obtain effs' s' where "finish_conversation env s = (effs', Returns reroute, s')"
    using exhausted_finish_conversation by blast
  from traverse_reroute [OF nodes_finish_conversation this]
  show "\<exists>st. traverse env (Suc (Suc (Suc fuel))) (Node ''finish_conversation'') s =
           ([''finish_conversation'', ''diagnose_errors''], FinalState st)"
    by blast
next
  assume "router_agent_run env (lower m) = Inl e \<and> 0 \<le> attempt_of ''route_user_message'' s"
  then obtain effs' s' where
    "route_user_message env (s\<lparr>latest_user_message := m\<rparr>) = (effs', Returns reroute, s')"
    using exhausted_route_user_message by blast
  from resume_reroute [OF this]
  show "\<exists>st. resume env (Suc (Suc fuel)) s m =
           ([''route_user_message'', ''diagnose_errors''], FinalState st)"
    by blast
next
  assume b: "reasoner_run env
          (''Analyze user request: '' @ latest_user_message s @ nl
             @ ''Return a scope for building a Pydantic AI agent.'') = Inl e
        \<and> attempt_of ''define_scope_with_reasoner'' s < 1"
  then obtain effs' where
    "define_scope_with_reasoner_func env (ensure_error_fields s) = (effs', Raises e)"
    by (simp add: define_scope_with_reasoner_func_def agent_call_def ensure_error_fields_def
        Let_def)
  then have "define_scope_with_reasoner env s =
      (effs',
       (if attempt_of ''define_scope_with_reasoner'' s + 1 \<ge> 2 then Returns reroute else Raises e),
       (ensure_error_fields s)
         \<lparr>error_log := Some (log_of s @ [error_message ''define_scope_with_reasoner'' e]),
          error_retries := Some (AList.update ''define_scope_with_reasoner''
            (attempt_of ''define_scope_with_reasoner'' s + 1) (retries_of s))\<rparr>)"
    unfolding define_scope_with_reasoner_def by (rule decorator_failure)
  moreover have "\<not> attempt_of ''define_scope_with_reasoner'' s + 1 \<ge> 2"
    using b by simp
  ultimately show "fst (snd (define_scope_with_reasoner env s)) = Raises e"
    by simp
qed

theorem escalation_terminality_witness:
  "fst (snd (route_user_message failing_env ((initial_state ''go'')\<lparr>latest_user_message := ''next''\<rparr>)))
     = Returns reroute
   \<and> fst (resume failing_env (Suc (Suc 0)) (initial_state ''go'') ''next'')
       = [''route_user_message'', ''diagnose_errors'']
   \<and> (\<exists>st. snd (resume failing_env (Suc (Suc 0)) (initial_state ''go'') ''next'') = FinalState st)
   \<and> fst (traverse failing_env (Suc (Suc 0)) (Node ''diagnose_errors'') (initial_state ''go''))
       = [''diagnose_errors'']"
proof -
  let ?x = "route_user_message failing_env ((initial_state ''go'')\<lparr>latest_user_message := ''next''\<rparr>)"
  have o: "fst (snd ?x) = Returns reroute"
    by (simp add: route_user_message_def error_handler_decorator_def route_user_message_func_def
        agent_call_def failing_env_def initial_state_def ensure_error_fields_def attempt_of_def
        retries_of_def log_of_def)
  then have r: "?x = (fst ?x, Returns reroute, snd (snd ?x))"
    by (simp add: prod_eq_iff)
  note et = escalation_terminality [of failing_env 0 "initial_state ''go'' " "''route_user_message''"
      "route_user_message failing_env" "fst ?x" "snd (snd ?x)" "''next''" boom]
  from et [THEN conjunct1] obtain fb where
    d: "traverse failing_env (Suc (Suc 0)) (Node ''diagnose_errors'') (initial_state ''go'') =
          ([''diagnose_errors''], FinalState ((initial_state ''go'')\<lparr>diagnostic_feedback := Some fb\<rparr>))"
    by blast
  from et [THEN conjunct2, THEN conjunct2, THEN conjunct1, rule_format, OF r] obtain fb' where
    q: "resume failing_env (Suc (Suc 0)) (initial_state ''go'') ''next'' =
          ([''route_user_message'', ''diagnose_errors''],
           FinalState ((snd (snd ?x))\<lparr>diagnostic_feedback := Some fb'\<rparr>))"
    by blast
  show ?thesis
    by (simp only: o d q fst_conv snd_conv) simp
qed

text \<open>
  Failures that do not reach the diagnostics node. With a reasoner that raises, the first
  failure of the scoping step (bound 2) is re-raised: the traversal from START ends with
  that exception, not at END, and \<^verbatim>\<open>diagnose_errors\<close> is not executed. With a tool generator
  agent that raises, the undecorated \<^verbatim>\<open>generate_tool_code\<close> raises with no reroute at all.
\<close>

theorem escalation_terminality_counterexample:
  "fst (snd (define_scope_with_reasoner failing_env (initial_state ''go''))) = Raises boom
   \<and> traverse failing_env (Suc (Suc (Suc (Suc 0)))) START (initial_state ''go'') =
       ([''define_scope_with_reasoner''],
        NodeRaised ''define_scope_with_reasoner'' boom
          ((initial_state ''go'')
             \<lparr>error_log := Some [error_message ''define_scope_with_reasoner'' boom],
              error_retries := Some [(''define_scope_with_reasoner'', 1)]\<rparr>))
   \<and> generate_tool_code failing_env (initial_state ''make a tool'') =
       (fst (generate_tool_code failing_env (initial_state ''make a tool'')), Raises boom)
   \<and> traverse failing_env (Suc (Suc (Suc (Suc 0)))) (Node ''generate_tool_code'')
        (initial_state ''make a tool'') =
       ([''generate_tool_code''],
        NodeRaised ''generate_tool_code'' boom (initial_state ''make a tool''))"
  by (simp add: nodes_def edges_def plain_def define_scope_with_reasoner_def
      error_handler_decorator_def define_scope_with_reasoner_func_def generate_tool_code_def
      agent_call_def failing_env_def initial_state_def ensure_error_fields_def attempt_of_def
      retries_of_def log_of_def Let_def)

end
